theory Spec2Isabelle
  imports Complex_Main "HOL-Library.Finite_Map"
begin

section \<open>Python values and errors\<close>

text \<open>
  The program is \<^verbatim>\<open>libgenminer.py\<close>. Its configuration and its history are
  Python values read from and written to JSON files, so the values are modelled once:
  \<^verbatim>\<open>None\<close>, booleans, unbounded integers, floats, strings, lists, tuples
  (the default \<^verbatim>\<open>wait_time\<close> is the tuple \<^verbatim>\<open>(1, 3)\<close>) and dictionaries with
  string keys. A dictionary is a finite map: Python compares dictionaries without regard
  to the order of their keys.
\<close>

datatype pyval =
    PNone
  | PBool bool
  | PInt int
  | PFloat real
  | PStr string
  | PList "pyval list"
  | PTuple "pyval list"
  | PDict "(string, pyval) fmap"

text \<open>
  Every exception the modelled code can raise is a value. A \<^verbatim>\<open>ValueError\<close> carries
  what its message says: the number of values where two were to be unpacked, a negative
  length given to \<^verbatim>\<open>time.sleep\<close>, the format \<^verbatim>\<open>export_results\<close> does not support,
  or the file type for which \<^verbatim>\<open>to_excel\<close> has no engine.
\<close>

datatype value_error =
    Unpack_count nat
  | Negative_sleep
  | Unsupported_export_format string
  | No_engine_for_filetype string

datatype error =
    TimeoutException
  | NoSuchElementException
  | WebDriverException
  | IndexError
  | KeyError
  | TypeError
  | AttributeError
  | ValueError value_error
  | FileNotFoundError
  | PermissionError
  | JSONDecodeError

text \<open>Sequencing of a computation that may raise: the first exception wins.\<close>

definition bind :: "error + 'a \<Rightarrow> ('a \<Rightarrow> error + 'b) \<Rightarrow> error + 'b" where
  "bind m f = (case m of Inl e \<Rightarrow> Inl e | Inr x \<Rightarrow> f x)"

text \<open>
  \<^verbatim>\<open>xs[i]\<close> for the non-negative literal indices the code uses: out of range raises
  \<^verbatim>\<open>IndexError\<close>.
\<close>

definition py_index :: "'a list \<Rightarrow> nat \<Rightarrow> error + 'a" where
  "py_index xs i = (if i < length xs then Inr (xs ! i) else Inl IndexError)"

text \<open>
  \<^verbatim>\<open>xs[start:stop]\<close> with integer bounds: a negative bound counts from the end,
  and both bounds are clamped to the list.
\<close>

definition clamp_bound :: "nat \<Rightarrow> int \<Rightarrow> nat" where
  "clamp_bound n i = (if i < 0 then nat (max (i + int n) 0) else min (nat i) n)"

definition py_slice :: "'a list \<Rightarrow> int \<Rightarrow> int \<Rightarrow> 'a list" where
  "py_slice xs start stop =
     (let lo = clamp_bound (length xs) start; hi = clamp_bound (length xs) stop
      in take (hi - lo) (drop lo xs))"

text \<open>
  \<^verbatim>\<open>str.strip()\<close>: leading and trailing whitespace removed. A character here is a
  code point below 256, and the whitespace is what \<^verbatim>\<open>str.isspace\<close> accepts among
  these: tab, line feed, vertical tab, form feed, carriage return, the four separators
  28 to 31, space, next line (133) and no-break space (160).
\<close>

definition is_space :: "char \<Rightarrow> bool" where
  "is_space c = (of_char c \<in> {9, 10, 11, 12, 13, 28, 29, 30, 31, 32, 133, 160 :: nat})"

definition strip :: "string \<Rightarrow> string" where
  "strip s = rev (dropWhile is_space (rev (dropWhile is_space s)))"

section \<open>Records of one search\<close>

text \<open>
  \<^verbatim>\<open>BookData\<close>, field for field. \<^verbatim>\<open>size\<close> is named \<open>size_b\<close>. The download link
  is what \<^verbatim>\<open>get_attribute("href")\<close> returned, which is \<^verbatim>\<open>None\<close> for an anchor
  without that attribute.
\<close>

record book_data =
  title :: string
  author :: string
  year :: string
  format :: string
  size_b :: string
  language :: string
  pages :: string
  publisher :: string
  isbn :: string
  download_link :: "string option"

text \<open>
  The part of a web page the extraction reads. A cell (\<^verbatim>\<open>td\<close>) has its visible text
  and the \<^verbatim>\<open>href\<close> attributes of the anchors inside it, in document order. A row
  (\<^verbatim>\<open>tr\<close>) is the list of its cells, a table the list of its rows.
\<close>

record cell =
  cell_text :: string
  anchors :: "string option list"

type_synonym row = "cell list"

text \<open>
  \<^verbatim>\<open>cols[i].text.strip()\<close> and
  \<^verbatim>\<open>cols[i].find_element(By.TAG_NAME, "a").get_attribute("href")\<close>: the first anchor
  of the cell, \<^verbatim>\<open>NoSuchElementException\<close> when the cell has none.
\<close>

definition text_at :: "row \<Rightarrow> nat \<Rightarrow> error + string" where
  "text_at cols i = bind (py_index cols i) (\<lambda>c. Inr (strip (cell_text c)))"

definition href_at :: "row \<Rightarrow> nat \<Rightarrow> error + string option" where
  "href_at cols i =
     bind (py_index cols i)
       (\<lambda>c. case anchors c of [] \<Rightarrow> Inl NoSuchElementException | h # _ \<Rightarrow> Inr h)"

text \<open>
  The body of the loop of \<^verbatim>\<open>_extract_book_data\<close> for one row: \<open>Inr None\<close> when
  the row is passed over, \<open>Inr (Some b)\<close> when \<open>b\<close> is appended, \<open>Inl e\<close> when the
  body raises. The keyword arguments of \<^verbatim>\<open>BookData(...)\<close> are evaluated in the order
  they are written.
\<close>

definition parse_row :: "row \<Rightarrow> error + book_data option" where
  "parse_row cols =
     (if 9 \<le> length cols then
        bind (text_at cols 2) (\<lambda>t.
        bind (text_at cols 1) (\<lambda>a.
        bind (text_at cols 4) (\<lambda>y.
        bind (text_at cols 8) (\<lambda>f.
        bind (text_at cols 7) (\<lambda>s.
        bind (text_at cols 6) (\<lambda>l.
        bind (text_at cols 5) (\<lambda>p.
        bind (text_at cols 3) (\<lambda>pb.
        bind (if 9 < length cols then text_at cols 9 else Inr []) (\<lambda>i.
        bind (href_at cols 2) (\<lambda>d.
        Inr (Some \<lparr>title = t, author = a, year = y, format = f, size_b = s,
                   language = l, pages = p, publisher = pb, isbn = i,
                   download_link = d\<rparr>)))))))))))
      else Inr None)"

text \<open>
  The loop itself. It runs inside the \<^verbatim>\<open>try\<close> of \<^verbatim>\<open>_extract_book_data\<close>: an
  exception in one row leaves the loop, and the handler returns the books appended so
  far. The result is the list \<^verbatim>\<open>books\<close> and the exception that ended the loop, if any.
\<close>

fun parse_rows :: "row list \<Rightarrow> book_data list \<Rightarrow> book_data list \<times> error option" where
  "parse_rows [] books = (books, None)"
| "parse_rows (r # rs) books =
     (case parse_row r of
        Inl e \<Rightarrow> (books, Some e)
      | Inr None \<Rightarrow> parse_rows rs books
      | Inr (Some b) \<Rightarrow> parse_rows rs (books @ [b]))"

section \<open>The world outside the program\<close>

text \<open>
  A file is described by what reading it gives: a file the process may not read, a file
  whose text is not JSON, a JSON document (the value \<^verbatim>\<open>json.load\<close> returns for it), or
  a table written by \<^verbatim>\<open>to_csv\<close> or \<^verbatim>\<open>to_excel\<close>. A file of no bytes is a file
  whose text is not JSON. An absent file is an absent key.
\<close>

datatype stored =
    Denied
  | Garbled
  | JsonDoc pyval
  | CsvDoc "book_data list"
  | ExcelDoc "book_data list"

text \<open>
  \<^verbatim>\<open>json.dump\<close> writes a tuple as an array, so a value read back has lists where the
  value written had tuples.
\<close>

primrec as_json :: "pyval \<Rightarrow> pyval" where
  "as_json PNone = PNone"
| "as_json (PBool b) = PBool b"
| "as_json (PInt n) = PInt n"
| "as_json (PFloat r) = PFloat r"
| "as_json (PStr s) = PStr s"
| "as_json (PList xs) = PList (map as_json xs)"
| "as_json (PTuple xs) = PList (map as_json xs)"
| "as_json (PDict d) = PDict (fmmap as_json d)"

text \<open>\<^verbatim>\<open>with open(path, 'r') as f: json.load(f)\<close>\<close>

definition json_load :: "(string \<rightharpoonup> stored) \<Rightarrow> string \<Rightarrow> error + pyval" where
  "json_load fs path =
     (case fs path of
        None \<Rightarrow> Inl FileNotFoundError
      | Some Denied \<Rightarrow> Inl PermissionError
      | Some (JsonDoc v) \<Rightarrow> Inr v
      | Some _ \<Rightarrow> Inl JSONDecodeError)"

text \<open>\<^verbatim>\<open>datetime.now()\<close> is read from the world.\<close>

record datetime =
  dt_year :: nat
  dt_month :: nat
  dt_day :: nat
  dt_hour :: nat
  dt_minute :: nat
  dt_second :: nat
  dt_microsecond :: nat

definition digit :: "nat \<Rightarrow> char" where
  "digit n = ''0123456789'' ! (n mod 10)"

definition pad2 :: "nat \<Rightarrow> string" where
  "pad2 n = [digit (n div 10), digit n]"

definition pad4 :: "nat \<Rightarrow> string" where
  "pad4 n = [digit (n div 1000), digit (n div 100), digit (n div 10), digit n]"

definition pad6 :: "nat \<Rightarrow> string" where
  "pad6 n = [digit (n div 100000), digit (n div 10000), digit (n div 1000),
             digit (n div 100), digit (n div 10), digit n]"

text \<open>\<^verbatim>\<open>strftime("%Y%m%d_%H%M%S")\<close>, for a year of four digits.\<close>

definition strftime :: "datetime \<Rightarrow> string" where
  "strftime t = pad4 (dt_year t) @ pad2 (dt_month t) @ pad2 (dt_day t) @ ''_'' @
                pad2 (dt_hour t) @ pad2 (dt_minute t) @ pad2 (dt_second t)"

text \<open>\<^verbatim>\<open>isoformat()\<close>: the microseconds are left out when they are zero.\<close>

definition isoformat :: "datetime \<Rightarrow> string" where
  "isoformat t = pad4 (dt_year t) @ ''-'' @ pad2 (dt_month t) @ ''-'' @ pad2 (dt_day t) @
                 ''T'' @ pad2 (dt_hour t) @ '':'' @ pad2 (dt_minute t) @ '':'' @
                 pad2 (dt_second t) @
                 (if dt_microsecond t = 0 then [] else ''.'' @ pad6 (dt_microsecond t))"

text \<open>
  The pages of the site, as far as the program looks at them: whether an element named
  \<^verbatim>\<open>req\<close> is present, the texts of the options of the element named \<^verbatim>\<open>column\<close>
  (if there is one), whether a submit input is there to click, and the rows of the first
  element of class \<^verbatim>\<open>c\<close> (if there is one). The site answers a submitted form with a
  page that depends on the text typed and the option clicked.
\<close>

record page =
  req_input :: bool
  column_options :: "string list option"
  submit_button :: bool
  results_table :: "row list option"

record site =
  home :: page
  results :: "string \<Rightarrow> string option \<Rightarrow> page"

text \<open>
  A browser session: whether it is still running, the arguments it was started with, the
  page it shows, the text in the query field and the option clicked.
\<close>

datatype chrome_arg = Headless | Images_disabled | User_agent pyval

record browser =
  alive :: bool
  arguments :: "chrome_arg list"
  shown :: page
  typed :: string
  chosen :: "string option"

text \<open>
  The world: the files, what opening a path for writing raises (nothing when the file
  can be written; \<^verbatim>\<open>FileNotFoundError\<close> for a path in a directory that does not
  exist, \<^verbatim>\<open>PermissionError\<close> for one that may not be written), the clock, the site,
  every browser session started so far (a session handle is its position in this
  list), whether starting a browser succeeds, and the numbers \<^verbatim>\<open>random.random()\<close>
  returns next.
\<close>

record world =
  files :: "string \<rightharpoonup> stored"
  write_error :: "string \<Rightarrow> error option"
  now :: datetime
  web :: site
  browsers :: "browser list"
  can_launch :: bool
  randoms :: "nat \<Rightarrow> real"
  drawn :: nat

text \<open>
  Opening a path for writing and writing a document: the file is replaced when the path
  can be opened, and left as it was when opening raises.
\<close>

definition write_file :: "string \<Rightarrow> stored \<Rightarrow> world \<Rightarrow> error + world" where
  "write_file path doc w =
     (case write_error w path of
        Some e \<Rightarrow> Inl e
      | None \<Rightarrow> Inr (w\<lparr>files := (files w)(path \<mapsto> doc)\<rparr>))"

text \<open>\<^verbatim>\<open>with open(path, 'w') as f: json.dump(v, f, indent=4)\<close>\<close>

definition json_dump :: "string \<Rightarrow> pyval \<Rightarrow> world \<Rightarrow> error + world" where
  "json_dump path v w = write_file path (JsonDoc (as_json v)) w"

section \<open>ConfigManager\<close>

definition DEFAULT_CONFIG :: "(string, pyval) fmap" where
  "DEFAULT_CONFIG = fmap_of_list
     [(''max_results'', PInt 20),
      (''timeout'', PInt 10),
      (''download_path'', PStr ''downloads''),
      (''search_history_file'', PStr ''search_history.json''),
      (''max_retries'', PInt 3),
      (''wait_time'', PTuple [PInt 1, PInt 3]),
      (''browser_options'', PDict (fmap_of_list
         [(''headless'', PBool False),
          (''disable_images'', PBool True),
          (''user_agent'',
             PStr ''Mozilla/5.0 (Windows NT 10.0; Win64; x64) AppleWebKit/537.36'')]))]"

text \<open>\<^verbatim>\<open>_save_config\<close>\<close>

definition save_config :: "string \<Rightarrow> (string, pyval) fmap \<Rightarrow> world \<Rightarrow> error + world" where
  "save_config config_file config w = json_dump config_file (PDict config) w"

text \<open>
  \<^verbatim>\<open>_load_config\<close>. \<^verbatim>\<open>{**self.DEFAULT_CONFIG, **json.load(f)}\<close> needs a mapping on the
  right: any other JSON value raises \<^verbatim>\<open>TypeError\<close>. Only \<^verbatim>\<open>FileNotFoundError\<close> is
  caught, and what \<^verbatim>\<open>_save_config\<close> raises inside the handler goes to the caller.
\<close>

definition load_config :: "string \<Rightarrow> world \<Rightarrow> (error + (string, pyval) fmap) \<times> world" where
  "load_config config_file w =
     (case json_load (files w) config_file of
        Inr (PDict d) \<Rightarrow> (Inr (DEFAULT_CONFIG ++\<^sub>f d), w)
      | Inr _ \<Rightarrow> (Inl TypeError, w)
      | Inl FileNotFoundError \<Rightarrow>
          (case save_config config_file DEFAULT_CONFIG w of
             Inl e \<Rightarrow> (Inl e, w)
           | Inr w' \<Rightarrow> (Inr DEFAULT_CONFIG, w'))
      | Inl e \<Rightarrow> (Inl e, w))"

text \<open>\<^verbatim>\<open>ConfigManager.get\<close>: \<^verbatim>\<open>dict.get\<close> gives \<^verbatim>\<open>None\<close> for a missing key.\<close>

definition get :: "(string, pyval) fmap \<Rightarrow> string \<Rightarrow> pyval" where
  "get config key = (case fmlookup config key of None \<Rightarrow> PNone | Some v \<Rightarrow> v)"

section \<open>BookSearcher\<close>

text \<open>
  What the logger receives: which handler logged, and the exception it caught.
\<close>

datatype log_entry =
    Search_error error
  | Data_extraction_error error
  | History_error error
  | Export_error error

text \<open>
  The fields of a \<^verbatim>\<open>BookSearcher\<close>: the configuration, the driver (a session handle,
  or \<^verbatim>\<open>None\<close>), the \<^verbatim>\<open>WebDriverWait\<close> (the handle it waits on and its timeout, or
  \<^verbatim>\<open>None\<close>) and what has been logged.
\<close>

record searcher =
  config :: "(string, pyval) fmap"
  driver :: "nat option"
  wait :: "(nat \<times> pyval) option"
  logged :: "log_entry list"




subsection \<open>The browser\<close>


definition number :: "pyval \<Rightarrow> real option" where
  "number v =
     (case v of
        PBool b \<Rightarrow> Some (if b then 1 else 0)
      | PInt n \<Rightarrow> Some (of_int n)
      | PFloat r \<Rightarrow> Some r
      | _ \<Rightarrow> None)"

text \<open>\<^verbatim>\<open>d[key]\<close> on a configuration value.\<close>

definition subscript :: "pyval \<Rightarrow> string \<Rightarrow> error + pyval" where
  "subscript v key =
     (case v of
        PDict d \<Rightarrow> (case fmlookup d key of None \<Rightarrow> Inl KeyError | Some x \<Rightarrow> Inr x)
      | _ \<Rightarrow> Inl TypeError)"



text \<open>A command sent to a session that has been quit raises.\<close>

definition live :: "world \<Rightarrow> nat \<Rightarrow> error + browser" where
  "live w h =
     (if h < length (browsers w) \<and> alive (browsers w ! h) then Inr (browsers w ! h)
      else Inl WebDriverException)"


text \<open>
  \<^verbatim>\<open>self.wait.until(condition)\<close>: the deadline is computed first (a timeout that is
  not a number raises \<^verbatim>\<open>TypeError\<close>), then the page shown is asked for the element;
  an element that does not come raises \<^verbatim>\<open>TimeoutException\<close>.
\<close>

definition until :: "searcher \<Rightarrow> world \<Rightarrow> (page \<Rightarrow> 'a option) \<Rightarrow> error + 'a" where
  "until s w locate =
     (case wait s of
        None \<Rightarrow> Inl AttributeError
      | Some (h, timeout) \<Rightarrow>
          if number timeout = None then Inl TypeError
          else bind (live w h) (\<lambda>b.
                 case locate (shown b) of
                   None \<Rightarrow> Inl TimeoutException
                 | Some x \<Rightarrow> Inr x))"





subsection \<open>search_books\<close>







text \<open>
  \<^verbatim>\<open>self.config.get("max_results") + 1\<close> as the stop of a slice: an integer (or a
  boolean, which Python adds as 0 or 1) gives an index; a float plus one is a float,
  which is no slice index; anything else cannot be added to \<^verbatim>\<open>1\<close>.
\<close>

definition stop_index :: "pyval \<Rightarrow> error + int" where
  "stop_index v =
     (case v of
        PInt n \<Rightarrow> Inr (n + 1)
      | PBool b \<Rightarrow> Inr ((if b then 1 else 0) + 1)
      | _ \<Rightarrow> Inl TypeError)"

text \<open>
  \<^verbatim>\<open>_extract_book_data\<close>. One \<^verbatim>\<open>try\<close> holds the wait for the table, the slice and
  the whole loop; its handler logs the exception, and the method returns \<^verbatim>\<open>books\<close>
  as it stands.
\<close>

definition extract_book_data :: "searcher \<Rightarrow> world \<Rightarrow> book_data list \<times> searcher" where
  "extract_book_data s w =
     (case bind (until s w results_table) (\<lambda>table.
           bind (stop_index (get (config s) ''max_results'')) (\<lambda>stop.
           Inr (py_slice table 1 stop))) of
        Inl e \<Rightarrow> ([], s\<lparr>logged := logged s @ [Data_extraction_error e]\<rparr>)
      | Inr rows \<Rightarrow>
          (case parse_rows rows [] of
             (books, None) \<Rightarrow> (books, s)
           | (books, Some e) \<Rightarrow>
               (books, s\<lparr>logged := logged s @ [Data_extraction_error e]\<rparr>)))"


text \<open>
  \<^verbatim>\<open>_save_search_history\<close>. Everything after the first line is inside a \<^verbatim>\<open>try\<close>
  whose handler logs and returns. \<^verbatim>\<open>Path(history_file)\<close> needs a string, and
  \<^verbatim>\<open>history.append\<close> needs a list.
\<close>

definition history_entry :: "datetime \<Rightarrow> string \<Rightarrow> nat \<Rightarrow> pyval" where
  "history_entry t search_term results_count = PDict (fmap_of_list
     [(''timestamp'', PStr (isoformat t)),
      (''search_term'', PStr search_term),
      (''results_count'', PInt (int results_count))])"

definition save_search_history :: "string \<Rightarrow> nat \<Rightarrow> searcher \<Rightarrow> world \<Rightarrow> searcher \<times> world" where
  "save_search_history search_term results_count s w =
     (case
        (case get (config s) ''search_history_file'' of
           PStr history_file \<Rightarrow>
             bind (if files w history_file \<noteq> None then json_load (files w) history_file
                   else Inr (PList []))
               (\<lambda>history. case history of
                  PList entries \<Rightarrow>
                    json_dump history_file
                      (PList (entries @
                         [history_entry (now w) search_term results_count])) w
                | _ \<Rightarrow> Inl AttributeError)
         | _ \<Rightarrow> Inl TypeError) of
        Inl e \<Rightarrow> (s\<lparr>logged := logged s @ [History_error e]\<rparr>, w)
      | Inr w' \<Rightarrow> (s, w'))"



subsection \<open>export_results and close\<close>

text \<open>
  The three writers of the frame. \<^verbatim>\<open>to_csv\<close> and \<^verbatim>\<open>to_json\<close> open the file they
  are given and write it. \<^verbatim>\<open>to_excel\<close> first chooses its engine from the extension of
  the file name (the text after the last dot): for an extension that has an engine the
  file is opened and a workbook written, and for any other \<^verbatim>\<open>ValueError\<close> (no engine
  for that file type) is raised before any file is opened.
\<close>

definition book_record :: "book_data \<Rightarrow> pyval" where
  "book_record b = PDict (fmap_of_list
     [(''title'', PStr (title b)), (''author'', PStr (author b)),
      (''year'', PStr (year b)), (''format'', PStr (format b)),
      (''size'', PStr (size_b b)), (''language'', PStr (language b)),
      (''pages'', PStr (pages b)), (''publisher'', PStr (publisher b)),
      (''isbn'', PStr (isbn b)),
      (''download_link'', case download_link b of None \<Rightarrow> PNone | Some h \<Rightarrow> PStr h)])"

definition file_ext :: "string \<Rightarrow> string" where
  "file_ext name =
     (if CHR ''.'' \<in> set name then rev (takeWhile (\<lambda>c. c \<noteq> CHR ''.'') (rev name)) else [])"

definition to_csv :: "string \<Rightarrow> book_data list \<Rightarrow> world \<Rightarrow> error + world" where
  "to_csv filename df w = write_file filename (CsvDoc df) w"

definition to_json :: "string \<Rightarrow> book_data list \<Rightarrow> world \<Rightarrow> error + world" where
  "to_json filename df w = write_file filename (JsonDoc (PList (map book_record df))) w"

definition to_excel :: "string \<Rightarrow> book_data list \<Rightarrow> world \<Rightarrow> error + world" where
  "to_excel filename df w =
     (if file_ext filename \<in> {''xlsx'', ''xlsm'', ''xls'', ''ods''}
      then write_file filename (ExcelDoc df) w
      else Inl (ValueError (No_engine_for_filetype (file_ext filename))))"

text \<open>The name of the export file: the format is its extension.\<close>

definition export_filename :: "datetime \<Rightarrow> string \<Rightarrow> string" where
  "export_filename t fmt = ''search_results_'' @ strftime t @ ''.'' @ fmt"

text \<open>
  \<^verbatim>\<open>export_results\<close>. The parameter \<^verbatim>\<open>format\<close> is named \<open>fmt\<close>. The handler logs and
  raises again.
\<close>

definition export_results ::
  "book_data list \<Rightarrow> string \<Rightarrow> searcher \<Rightarrow> world \<Rightarrow> (error + string) \<times> searcher \<times> world" where
  "export_results df fmt s w =
     (let filename = export_filename (now w) fmt in
      case (if fmt = ''csv'' then to_csv filename df w
            else if fmt = ''excel'' then to_excel filename df w
            else if fmt = ''json'' then to_json filename df w
            else Inl (ValueError (Unsupported_export_format fmt))) of
        Inl e \<Rightarrow> (Inl e, s\<lparr>logged := logged s @ [Export_error e]\<rparr>, w)
      | Inr w' \<Rightarrow> (Inr filename, s, w'))"



section \<open>Example inputs\<close>

text \<open>
  A result row as the site lays it out (ten cells, the title cell holding the link), the
  same row cut to nine cells, rows without a link in the title cell, a row of five
  cells, and a header row.
\<close>

definition plain :: "string \<Rightarrow> cell" where
  "plain t = \<lparr>cell_text = t, anchors = []\<rparr>"

definition dune_row :: row where
  "dune_row =
     [plain ''101'', plain ''Frank Herbert'',
      \<lparr>cell_text = '' Dune '', anchors = [Some ''book/index.php?md5=0A'']\<rparr>,
      plain ''Ace'', plain ''1965'', plain ''412'', plain ''English'', plain ''1 Mb'',
      plain ''epub'', plain ''9780441172719'']"

definition dune_book :: book_data where
  "dune_book =
     \<lparr>title = ''Dune'', author = ''Frank Herbert'', year = ''1965'', format = ''epub'',
      size_b = ''1 Mb'', language = ''English'', pages = ''412'', publisher = ''Ace'',
      isbn = ''9780441172719'', download_link = Some ''book/index.php?md5=0A''\<rparr>"

definition nine_row :: row where
  "nine_row = take 9 dune_row"

definition unlinked_row :: row where
  "unlinked_row = map plain
     [''102'', ''Anon'', ''Untitled'', ''None'', ''1900'', ''10'', ''Latin'', ''2 Kb'',
      ''txt'', ''0'']"

definition unlinked_nine_row :: row where
  "unlinked_nine_row = take 9 unlinked_row"

definition short_row :: row where
  "short_row = map plain [''103'', ''a'', ''b'', ''c'', ''d'']"

definition header_row :: row where
  "header_row = []"

text \<open>
  A searcher whose driver is session 0, and a world whose only session shows a page
  with the given table; every path can be written.
\<close>

definition noon :: datetime where
  "noon = \<lparr>dt_year = 2024, dt_month = 3, dt_day = 9, dt_hour = 12, dt_minute = 0,
           dt_second = 7, dt_microsecond = 0\<rparr>"

definition table_page :: "row list \<Rightarrow> page" where
  "table_page table = \<lparr>req_input = True, column_options = Some [''Title'', ''Author(s)''],
                        submit_button = True, results_table = Some table\<rparr>"

definition form_page :: page where
  "form_page = \<lparr>req_input = True, column_options = Some [''Title'', ''Author(s)''],
                 submit_button = True, results_table = None\<rparr>"

definition ready :: "(string, pyval) fmap \<Rightarrow> searcher" where
  "ready c = \<lparr>config = c, driver = Some 0, wait = Some (0, get c ''timeout''), logged = []\<rparr>"

definition showing :: "row list \<Rightarrow> world" where
  "showing table =
     \<lparr>files = Map.empty, write_error = (\<lambda>_. None), now = noon,
      web = \<lparr>home = form_page, results = (\<lambda>_ _. table_page table)\<rparr>,
      browsers = [\<lparr>alive = True, arguments = [], shown = table_page table, typed = [],
                   chosen = None\<rparr>],
      can_launch = True, randoms = (\<lambda>_. 0), drawn = 0\<rparr>"


text \<open>
  An override file that sets the cap and gives only one of the three browser options,
  and a configuration whose cap is negative.
\<close>

definition partial_override :: "(string, pyval) fmap" where
  "partial_override = fmap_of_list
     [(''max_results'', PInt 5),
      (''browser_options'', PDict (fmap_of_list [(''headless'', PBool True)]))]"


text \<open>
  A world in which the directory \<^verbatim>\<open>nodir\<close> does not exist, and a world in which the
  browser does not start.
\<close>

definition no_directory :: world where
  "no_directory =
     (showing [])\<lparr>write_error :=
        (\<lambda>path. if path = ''nodir/config.json'' then Some FileNotFoundError else None)\<rparr>"




section \<open>The loop body and the loop\<close>

lemma parse_row_short: "length cols < 9 \<Longrightarrow> parse_row cols = Inr None"
  by (simp add: parse_row_def)

lemma parse_row_long:
  "9 \<le> length cols \<Longrightarrow>
   parse_row cols =
     (case anchors (cols ! 2) of
        [] \<Rightarrow> Inl NoSuchElementException
      | h # _ \<Rightarrow>
          Inr (Some \<lparr>title = strip (cell_text (cols ! 2)),
                     author = strip (cell_text (cols ! 1)),
                     year = strip (cell_text (cols ! 4)),
                     format = strip (cell_text (cols ! 8)),
                     size_b = strip (cell_text (cols ! 7)),
                     language = strip (cell_text (cols ! 6)),
                     pages = strip (cell_text (cols ! 5)),
                     publisher = strip (cell_text (cols ! 3)),
                     isbn = (if 9 < length cols then strip (cell_text (cols ! 9)) else []),
                     download_link = h\<rparr>))"
  by (simp add: parse_row_def text_at_def href_at_def py_index_def bind_def split: list.splits)

lemma parse_dune_row: "parse_row dune_row = Inr (Some dune_book)"
  by (simp add: parse_row_long dune_row_def dune_book_def plain_def strip_def is_space_def)

lemma parse_unlinked_row: "parse_row unlinked_row = Inl NoSuchElementException"
  by (simp add: parse_row_long unlinked_row_def plain_def)

lemma parse_unlinked_nine_row: "parse_row unlinked_nine_row = Inl NoSuchElementException"
  by (simp add: parse_row_long unlinked_nine_row_def unlinked_row_def plain_def)

lemma parse_short_row: "parse_row short_row = Inr None"
  by (simp add: parse_row_short short_row_def)

lemma parse_header_row: "parse_row header_row = Inr None"
  by (simp add: parse_row_short header_row_def)


text \<open>
  When no row raises, the loop returns the books of all rows, in order; when a row
  raises, it returns the books of the rows before it, whatever comes after.
\<close>

lemma parse_rows_ok:
  "\<forall>r \<in> set rows. \<exists>x. parse_row r = Inr x \<Longrightarrow>
   parse_rows rows acc =
     (acc @ List.map_filter (\<lambda>r. case parse_row r of Inr x \<Rightarrow> x | Inl _ \<Rightarrow> None) rows,
      None)"
proof (induction rows arbitrary: acc)
  case Nil
  show ?case by (simp add: List.map_filter_simps)
next
  case (Cons r rows)
  from Cons.prems obtain x where x: "parse_row r = Inr x" by auto
  from Cons.prems have rest: "\<forall>r \<in> set rows. \<exists>x. parse_row r = Inr x" by simp
  show ?case
  proof (cases x)
    case None
    with x Cons.IH [OF rest, of acc] show ?thesis by (simp add: List.map_filter_simps)
  next
    case (Some b)
    with x Cons.IH [OF rest, of "acc @ [b]"] show ?thesis
      by (simp add: List.map_filter_simps)
  qed
qed

lemma parse_rows_fail:
  "\<forall>r \<in> set before. \<exists>x. parse_row r = Inr x \<Longrightarrow> parse_row bad = Inl e \<Longrightarrow>
   parse_rows (before @ bad # after) acc =
     (acc @ List.map_filter (\<lambda>r. case parse_row r of Inr x \<Rightarrow> x | Inl _ \<Rightarrow> None) before,
      Some e)"
proof (induction before arbitrary: acc)
  case Nil
  then show ?case by (simp add: List.map_filter_simps)
next
  case (Cons r before)
  from Cons.prems obtain x where x: "parse_row r = Inr x" by auto
  from Cons.prems have rest: "\<forall>r \<in> set before. \<exists>x. parse_row r = Inr x" by simp
  show ?case
  proof (cases x)
    case None
    with x Cons.IH [OF rest Cons.prems(2), of acc] show ?thesis
      by (simp add: List.map_filter_simps)
  next
    case (Some b)
    with x Cons.IH [OF rest Cons.prems(2), of "acc @ [b]"] show ?thesis
      by (simp add: List.map_filter_simps)
  qed
qed

section \<open>The example searcher and worlds\<close>

lemma ready_fields:
  "config (ready c) = c" "driver (ready c) = Some 0"
  "wait (ready c) = Some (0, get c ''timeout'')" "logged (ready c) = []"
  by (simp_all add: ready_def)

lemma get_default_max_results: "get DEFAULT_CONFIG ''max_results'' = PInt 20"
  by (simp add: get_def DEFAULT_CONFIG_def)

lemma get_default_timeout: "get DEFAULT_CONFIG ''timeout'' = PInt 10"
  by (simp add: get_def DEFAULT_CONFIG_def)

lemma until_showing:
  "until (ready DEFAULT_CONFIG) (showing table) results_table = Inr table"
  by (simp add: until_def ready_fields showing_def get_default_timeout number_def live_def
      bind_def table_page_def)

section \<open>Extraction: a row that fails\<close>

text \<open>
  C1, as amended. A failure in one row is not confined to that row. When the body of the
  loop raises for a row, \<^verbatim>\<open>_extract_book_data\<close> logs the exception and returns the
  books of the rows before that row; the rows after it are not parsed, whatever they
  hold. Nothing is raised to the caller: the method always returns a list.
\<close>

theorem extract_book_data_stops_at_failing_row:
  assumes "until s w results_table = Inr table"
    and "stop_index (get (config s) ''max_results'') = Inr stop"
    and "py_slice table 1 stop = before @ bad # after"
    and "\<forall>r \<in> set before. \<exists>x. parse_row r = Inr x"
    and "parse_row bad = Inl e"
  shows "extract_book_data s w =
           (List.map_filter (\<lambda>r. case parse_row r of Inr x \<Rightarrow> x | Inl _ \<Rightarrow> None) before,
            s\<lparr>logged := logged s @ [Data_extraction_error e]\<rparr>)"
  using assms parse_rows_fail [of before bad e after "[]"]
  by (simp add: extract_book_data_def bind_def)

theorem extract_book_data_stops_at_failing_row_witness:
  "extract_book_data (ready DEFAULT_CONFIG)
     (showing [header_row, dune_row, short_row, unlinked_row, dune_row]) =
   ([dune_book],
    (ready DEFAULT_CONFIG)\<lparr>logged := [Data_extraction_error NoSuchElementException]\<rparr>)"
  using extract_book_data_stops_at_failing_row
    [of "ready DEFAULT_CONFIG"
        "showing [header_row, dune_row, short_row, unlinked_row, dune_row]"
        "[header_row, dune_row, short_row, unlinked_row, dune_row]" 21
        "[dune_row, short_row]" unlinked_row "[dune_row]" NoSuchElementException]
  by (simp add: until_showing stop_index_def get_default_max_results py_slice_def
      clamp_bound_def parse_unlinked_row parse_dune_row parse_short_row
      List.map_filter_simps ready_fields)

text \<open>
  The claim as it was stated fails on a table whose first data row has no link in its
  title cell and whose second data row is well formed: the second row parses on its
  own, and the extraction returns no book at all.
\<close>

theorem extract_book_data_row_failure_counterexample:
  "parse_row dune_row = Inr (Some dune_book) \<and>
   fst (extract_book_data (ready DEFAULT_CONFIG)
          (showing [header_row, unlinked_row, dune_row])) = []"
  by (simp add: parse_dune_row extract_book_data_def until_showing bind_def
      stop_index_def get_default_max_results py_slice_def clamp_bound_def parse_unlinked_row
      ready_fields)

section \<open>Extraction: the mapping of one row\<close>

text \<open>
  C2, as amended. A row with fewer than 9 cells is passed over and nothing is raised. A
  row with at least 9 cells whose title cell (position 2) holds an anchor gives a record:
  author, title, publisher, year, pages, language, size and format are the stripped
  texts of positions 1 to 8, the ISBN is the stripped text of position 9 when the row
  has more than 9 cells and the empty string otherwise, and the download link is the
  \<^verbatim>\<open>href\<close> of the first anchor of the title cell. A row with at least 9 cells whose
  title cell holds no anchor gives no record: the body raises
  \<^verbatim>\<open>NoSuchElementException\<close>.
\<close>

theorem parse_row_mapping:
  "parse_row cols =
     (if length cols < 9 then Inr None
      else case anchors (cols ! 2) of
        [] \<Rightarrow> Inl NoSuchElementException
      | h # _ \<Rightarrow>
          Inr (Some \<lparr>title = strip (cell_text (cols ! 2)),
                     author = strip (cell_text (cols ! 1)),
                     year = strip (cell_text (cols ! 4)),
                     format = strip (cell_text (cols ! 8)),
                     size_b = strip (cell_text (cols ! 7)),
                     language = strip (cell_text (cols ! 6)),
                     pages = strip (cell_text (cols ! 5)),
                     publisher = strip (cell_text (cols ! 3)),
                     isbn = (if 9 < length cols then strip (cell_text (cols ! 9)) else []),
                     download_link = h\<rparr>))"
proof (cases "length cols < 9")
  case True
  then show ?thesis by (simp add: parse_row_short)
next
  case False
  then have "9 \<le> length cols" by simp
  from parse_row_long [OF this] False show ?thesis by simp
qed

theorem parse_row_mapping_witness:
  "parse_row dune_row = Inr (Some dune_book) \<and> parse_row short_row = Inr None"
  using parse_row_mapping [of dune_row] parse_row_mapping [of short_row]
  by (simp add: dune_row_def dune_book_def short_row_def plain_def strip_def is_space_def)

text \<open>
  The claim as it was stated promises a record for every row with at least 9 cells. A
  row of ten cells without a link in its title cell gives none.
\<close>

theorem parse_row_unlinked_counterexample:
  "9 \<le> length unlinked_row \<and> parse_row unlinked_row = Inl NoSuchElementException"
  by (simp add: parse_unlinked_row) (simp add: unlinked_row_def)

section \<open>Extraction: a row of exactly nine cells\<close>

text \<open>
  C9, as amended. For a row with exactly 9 cells no cell is read out of bounds:
  positions 1 to 8 are in bounds, position 9 (which would be out of bounds) is not read,
  and the body never raises \<^verbatim>\<open>IndexError\<close>. When the title cell holds an anchor the
  record is constructed, and its ISBN is the empty string; when it holds none, the
  anchor lookup raises \<^verbatim>\<open>NoSuchElementException\<close> and no record is constructed.
\<close>

theorem parse_row_nine_cells:
  assumes "length cols = 9"
  shows "(\<forall>i \<in> {1..8}. py_index cols i = Inr (cols ! i)) \<and>
         py_index cols 9 = Inl IndexError \<and>
         parse_row cols \<noteq> Inl IndexError \<and>
         parse_row cols =
           (case anchors (cols ! 2) of
              [] \<Rightarrow> Inl NoSuchElementException
            | h # _ \<Rightarrow>
                Inr (Some \<lparr>title = strip (cell_text (cols ! 2)),
                           author = strip (cell_text (cols ! 1)),
                           year = strip (cell_text (cols ! 4)),
                           format = strip (cell_text (cols ! 8)),
                           size_b = strip (cell_text (cols ! 7)),
                           language = strip (cell_text (cols ! 6)),
                           pages = strip (cell_text (cols ! 5)),
                           publisher = strip (cell_text (cols ! 3)),
                           isbn = [],
                           download_link = h\<rparr>))"
proof -
  from assms have nine: "9 \<le> length cols" by simp
  have reads: "\<forall>i \<in> {1..8}. py_index cols i = Inr (cols ! i)"
    using assms by (simp add: py_index_def)
  have beyond: "py_index cols 9 = Inl IndexError"
    using assms by (simp add: py_index_def)
  have row: "parse_row cols =
           (case anchors (cols ! 2) of
              [] \<Rightarrow> Inl NoSuchElementException
            | h # _ \<Rightarrow>
                Inr (Some \<lparr>title = strip (cell_text (cols ! 2)),
                           author = strip (cell_text (cols ! 1)),
                           year = strip (cell_text (cols ! 4)),
                           format = strip (cell_text (cols ! 8)),
                           size_b = strip (cell_text (cols ! 7)),
                           language = strip (cell_text (cols ! 6)),
                           pages = strip (cell_text (cols ! 5)),
                           publisher = strip (cell_text (cols ! 3)),
                           isbn = [],
                           download_link = h\<rparr>))"
    using parse_row_long [OF nine] assms by simp
  have "parse_row cols \<noteq> Inl IndexError"
    unfolding row by (simp split: list.splits)
  with reads beyond row show ?thesis by blast
qed

theorem parse_row_nine_cells_witness:
  "length nine_row = 9 \<and> parse_row nine_row = Inr (Some (dune_book\<lparr>isbn := []\<rparr>))"
  using parse_row_nine_cells [of nine_row]
  by (simp add: nine_row_def dune_row_def dune_book_def plain_def strip_def is_space_def)

text \<open>
  The claim as it was stated has a record constructed for every row of exactly 9 cells.
  A row of nine cells without a link in its title cell gives none.
\<close>

theorem parse_row_nine_cells_counterexample:
  "length unlinked_nine_row = 9 \<and>
   parse_row unlinked_nine_row = Inl NoSuchElementException"
  by (simp add: parse_unlinked_nine_row) (simp add: unlinked_nine_row_def unlinked_row_def)

section \<open>Loading the configuration\<close>

lemma files_showing: "files (showing table) = Map.empty"
  by (simp add: showing_def)

text \<open>
  C3. When the configuration file holds a JSON object, \<^verbatim>\<open>_load_config\<close> returns the
  defaults overlaid by the object: a key of the object has the object's value, any other
  key keeps its default, and nothing is written. The overlay is at the top level only:
  the value of \<^verbatim>\<open>browser_options\<close> in the override replaces the default dictionary
  whole.
\<close>

theorem load_config_overlay:
  assumes "files w config_file = Some (JsonDoc (PDict override))"
  shows "load_config config_file w = (Inr (DEFAULT_CONFIG ++\<^sub>f override), w) \<and>
         (\<forall>key. fmlookup (DEFAULT_CONFIG ++\<^sub>f override) key =
            (case fmlookup override key of
               Some v \<Rightarrow> Some v
             | None \<Rightarrow> fmlookup DEFAULT_CONFIG key)) \<and>
         (\<forall>b. fmlookup override ''browser_options'' = Some b \<longrightarrow>
            get (DEFAULT_CONFIG ++\<^sub>f override) ''browser_options'' = b)"
  using assms
  by (auto simp add: load_config_def json_load_def get_def fmlookup_dom_iff
      split: option.splits)

text \<open>
  With the partial override the cap is the override's, the timeout is the default, and
  the browser options are the override's single option: \<^verbatim>\<open>disable_images\<close> is gone.
\<close>

theorem load_config_overlay_witness:
  "(let w = (showing [])\<lparr>files := [''config.json'' \<mapsto> JsonDoc (PDict partial_override)]\<rparr>;
        c = DEFAULT_CONFIG ++\<^sub>f partial_override
    in load_config ''config.json'' w = (Inr c, w) \<and>
       get c ''max_results'' = PInt 5 \<and>
       get c ''timeout'' = PInt 10 \<and>
       get c ''browser_options'' = PDict (fmap_of_list [(''headless'', PBool True)]) \<and>
       subscript (get c ''browser_options'') ''disable_images'' = Inl KeyError)"
  using load_config_overlay
    [of "(showing [])\<lparr>files := [''config.json'' \<mapsto> JsonDoc (PDict partial_override)]\<rparr>"
        "''config.json''" partial_override]
  by (simp add: Let_def partial_override_def DEFAULT_CONFIG_def get_def subscript_def)

lemma write_error_showing: "write_error (showing table) = (\<lambda>_. None)"
  by (simp add: showing_def)

text \<open>
  C4, as amended. When the configuration file does not exist and its path can be opened
  for writing, \<^verbatim>\<open>_load_config\<close> writes the default configuration to that path (as
  \<^verbatim>\<open>json.dump\<close> writes it) and returns the defaults. When the file does not exist and
  opening the path for writing raises, that exception goes to the caller: no
  configuration is returned and no file is created. When the file holds text that is not
  JSON, or may not be read, the exception (\<^verbatim>\<open>JSONDecodeError\<close>,
  \<^verbatim>\<open>PermissionError\<close>) goes to the caller: no configuration is returned and nothing
  is written.
\<close>

theorem load_config_missing_or_unreadable:
  "(files w config_file = None \<and> write_error w config_file = None \<longrightarrow>
      load_config config_file w =
        (Inr DEFAULT_CONFIG,
         w\<lparr>files := (files w)(config_file \<mapsto> JsonDoc (as_json (PDict DEFAULT_CONFIG)))\<rparr>)) \<and>
   (files w config_file = None \<and> write_error w config_file = Some e \<longrightarrow>
      load_config config_file w = (Inl e, w)) \<and>
   (files w config_file = Some Garbled \<longrightarrow>
      load_config config_file w = (Inl JSONDecodeError, w)) \<and>
   (files w config_file = Some Denied \<longrightarrow>
      load_config config_file w = (Inl PermissionError, w))"
  by (simp add: load_config_def json_load_def save_config_def json_dump_def write_file_def)

theorem load_config_missing_or_unreadable_witness:
  "load_config ''config.json'' (showing []) =
     (Inr DEFAULT_CONFIG,
      (showing [])\<lparr>files := [''config.json'' \<mapsto> JsonDoc (as_json (PDict DEFAULT_CONFIG))]\<rparr>) \<and>
   load_config ''config.json'' ((showing [])\<lparr>write_error := (\<lambda>_. Some PermissionError)\<rparr>) =
     (Inl PermissionError, (showing [])\<lparr>write_error := (\<lambda>_. Some PermissionError)\<rparr>) \<and>
   load_config ''config.json'' ((showing [])\<lparr>files := [''config.json'' \<mapsto> Garbled]\<rparr>) =
     (Inl JSONDecodeError, (showing [])\<lparr>files := [''config.json'' \<mapsto> Garbled]\<rparr>) \<and>
   load_config ''config.json'' ((showing [])\<lparr>files := [''config.json'' \<mapsto> Denied]\<rparr>) =
     (Inl PermissionError, (showing [])\<lparr>files := [''config.json'' \<mapsto> Denied]\<rparr>)"
  using load_config_missing_or_unreadable [of "showing []" "''config.json''"]
    load_config_missing_or_unreadable
      [of "(showing [])\<lparr>write_error := (\<lambda>_. Some PermissionError)\<rparr>" "''config.json''"
          PermissionError]
    load_config_missing_or_unreadable
      [of "(showing [])\<lparr>files := [''config.json'' \<mapsto> Garbled]\<rparr>" "''config.json''"]
    load_config_missing_or_unreadable
      [of "(showing [])\<lparr>files := [''config.json'' \<mapsto> Denied]\<rparr>" "''config.json''"]
  by (simp add: files_showing write_error_showing)

text \<open>
  The claim as it was stated has the defaults written and returned whenever the file
  does not exist. For a configuration file in a directory that does not exist, the file
  is absent, the write in the handler raises \<^verbatim>\<open>FileNotFoundError\<close>, and the load
  returns no configuration and creates no file.
\<close>

theorem load_config_unwritable_counterexample:
  "files no_directory ''nodir/config.json'' = None \<and>
   load_config ''nodir/config.json'' no_directory = (Inl FileNotFoundError, no_directory)"
  by (simp add: no_directory_def files_showing load_config_def json_load_def save_config_def
      json_dump_def write_file_def)

section \<open>The search history\<close>

lemma as_json_history_entry:
  "as_json (history_entry t search_term n) = history_entry t search_term n"
  by (simp add: history_entry_def fmmap_fmupd)

text \<open>
  A value that \<^verbatim>\<open>json.dump\<close> has written is written back unchanged.
\<close>

lemma as_json_idem: "as_json (as_json v) = as_json v"
  by (induction v) (simp_all add: fmap.map_comp cong: map_cong fmap.map_cong)

lemma get_default_history:
  "get DEFAULT_CONFIG ''search_history_file'' = PStr ''search_history.json''"
  by (simp add: get_def DEFAULT_CONFIG_def)

text \<open>
  C8, as amended. When the history file is absent, or holds a JSON array (the empty
  array for an empty history), and its path can be opened for writing,
  \<^verbatim>\<open>_save_search_history\<close> rewrites the file with the whole array followed by one new
  entry; nothing is logged. (The entries read are written as \<^verbatim>\<open>json.dump\<close> writes
  them, which leaves a value read from a JSON file as it is.) From an absent file or the
  empty array the file holds a one-element array, and the entry's search term and
  result count are the values given.
\<close>

theorem save_search_history_appends:
  assumes "get (config s) ''search_history_file'' = PStr history_file"
    and "files w history_file = None \<and> entries = [] \<or>
         files w history_file = Some (JsonDoc (PList entries))"
    and "write_error w history_file = None"
  shows "save_search_history search_term results_count s w =
           (s, w\<lparr>files := (files w)(history_file \<mapsto>
                   JsonDoc (PList (map as_json entries @
                     [history_entry (now w) search_term results_count])))\<rparr>) \<and>
         subscript (history_entry (now w) search_term results_count) ''search_term'' =
           Inr (PStr search_term) \<and>
         subscript (history_entry (now w) search_term results_count) ''results_count'' =
           Inr (PInt (int results_count))"
  using assms
  by (auto simp add: save_search_history_def json_load_def json_dump_def write_file_def
      bind_def as_json_history_entry) (simp_all add: history_entry_def subscript_def)

theorem save_search_history_appends_witness:
  "save_search_history ''Dune'' 20 (ready DEFAULT_CONFIG) (showing []) =
     (ready DEFAULT_CONFIG,
      (showing [])\<lparr>files := [''search_history.json'' \<mapsto>
         JsonDoc (PList [history_entry noon ''Dune'' 20])]\<rparr>) \<and>
   save_search_history ''Emma'' 0 (ready DEFAULT_CONFIG)
     ((showing [])\<lparr>files := [''search_history.json'' \<mapsto>
         JsonDoc (PList [history_entry noon ''Dune'' 20])]\<rparr>) =
     (ready DEFAULT_CONFIG,
      (showing [])\<lparr>files := [''search_history.json'' \<mapsto>
         JsonDoc (PList [history_entry noon ''Dune'' 20, history_entry noon ''Emma'' 0])]\<rparr>)"
  using save_search_history_appends
    [of "ready DEFAULT_CONFIG" "''search_history.json''" "showing []" "[]" "''Dune''" 20]
    save_search_history_appends
    [of "ready DEFAULT_CONFIG" "''search_history.json''"
        "(showing [])\<lparr>files := [''search_history.json'' \<mapsto>
            JsonDoc (PList [history_entry noon ''Dune'' 20])]\<rparr>"
        "[history_entry noon ''Dune'' 20]" "''Emma''" 0]
  by (simp add: ready_fields get_default_history files_showing write_error_showing
      as_json_history_entry)
    (simp add: showing_def)

text \<open>
  A history file whose text is not JSON is not taken for an empty history: reading it
  raises inside the \<^verbatim>\<open>try\<close>, the handler logs, and the file is left as it was. The
  same holds when the file cannot be opened for writing.
\<close>

lemma save_search_history_garbled:
  assumes "get (config s) ''search_history_file'' = PStr history_file"
    and "files w history_file = Some Garbled"
  shows "save_search_history search_term results_count s w =
           (s\<lparr>logged := logged s @ [History_error JSONDecodeError]\<rparr>, w)"
  using assms by (simp add: save_search_history_def json_load_def bind_def)

lemma save_search_history_unwritable:
  assumes "get (config s) ''search_history_file'' = PStr history_file"
    and "files w history_file = None"
    and "write_error w history_file = Some e"
  shows "save_search_history search_term results_count s w =
           (s\<lparr>logged := logged s @ [History_error e]\<rparr>, w)"
  using assms
  by (simp add: save_search_history_def json_dump_def write_file_def bind_def)

text \<open>
  The claim as it was stated has the append produce a one-element array from an empty
  history file. A history file of no bytes exists and is not JSON: after the append it
  is still a file of no bytes, and the error is in the log.
\<close>

theorem save_search_history_empty_file_counterexample:
  "save_search_history ''Dune'' 20 (ready DEFAULT_CONFIG)
     ((showing [])\<lparr>files := [''search_history.json'' \<mapsto> Garbled]\<rparr>) =
   ((ready DEFAULT_CONFIG)\<lparr>logged := [History_error JSONDecodeError]\<rparr>,
    (showing [])\<lparr>files := [''search_history.json'' \<mapsto> Garbled]\<rparr>)"
  by (simp add: save_search_history_garbled ready_fields get_default_history)

section \<open>Exporting\<close>

lemma file_ext_export_filename:
  "CHR ''.'' \<notin> set fmt \<Longrightarrow> file_ext (export_filename t fmt) = fmt"
proof -
  assume nodot: "CHR ''.'' \<notin> set fmt"
  then have all: "\<forall>c \<in> set (rev fmt). c \<noteq> CHR ''.''" by auto
  have "takeWhile (\<lambda>c. c \<noteq> CHR ''.'') (rev fmt @ CHR ''.'' # rest) = rev fmt" for rest
    using all by (simp add: takeWhile_tail)
  then show ?thesis
    by (simp add: file_ext_def export_filename_def)
qed

text \<open>
  What \<^verbatim>\<open>export_results\<close> does for each format. A format other than the three raises
  the \<^verbatim>\<open>ValueError\<close> of the last branch, which is logged, and the world is as it was:
  no file is written. \<^verbatim>\<open>csv\<close> and \<^verbatim>\<open>json\<close> write the file and return its name
  when the file can be opened for writing; when it cannot, the exception is logged and
  raised again.
\<close>

lemma export_results_unsupported:
  "fmt \<notin> {''csv'', ''excel'', ''json''} \<Longrightarrow>
   export_results df fmt s w =
     (Inl (ValueError (Unsupported_export_format fmt)),
      s\<lparr>logged := logged s @ [Export_error (ValueError (Unsupported_export_format fmt))]\<rparr>,
      w)"
  by (simp add: export_results_def Let_def)

lemma export_results_csv:
  "write_error w (export_filename (now w) ''csv'') = None \<Longrightarrow>
   export_results df ''csv'' s w =
     (Inr (export_filename (now w) ''csv''), s,
      w\<lparr>files := (files w)(export_filename (now w) ''csv'' \<mapsto> CsvDoc df)\<rparr>)"
  by (simp add: export_results_def to_csv_def write_file_def Let_def)

lemma export_results_json:
  "write_error w (export_filename (now w) ''json'') = None \<Longrightarrow>
   export_results df ''json'' s w =
     (Inr (export_filename (now w) ''json''), s,
      w\<lparr>files := (files w)(export_filename (now w) ''json'' \<mapsto>
             JsonDoc (PList (map book_record df)))\<rparr>)"
  by (simp add: export_results_def to_json_def write_file_def Let_def)

lemma export_results_unwritable:
  "fmt = ''csv'' \<or> fmt = ''json'' \<Longrightarrow>
   write_error w (export_filename (now w) fmt) = Some e \<Longrightarrow>
   export_results df fmt s w = (Inl e, s\<lparr>logged := logged s @ [Export_error e]\<rparr>, w)"
  by (auto simp add: export_results_def to_csv_def to_json_def write_file_def Let_def)

text \<open>
  The time stamp in the name is eight digits, an underscore and six digits.
\<close>

lemma digit_is_digit: "digit n \<in> set ''0123456789''"
  unfolding digit_def by (rule nth_mem) simp

lemma strftime_shape:
  "\<exists>date time. strftime t = date @ ''_'' @ time \<and> length date = 8 \<and> length time = 6 \<and>
     set (date @ time) \<subseteq> set ''0123456789''"
proof (intro exI conjI)
  show "strftime t =
      (pad4 (dt_year t) @ pad2 (dt_month t) @ pad2 (dt_day t)) @ ''_'' @
      (pad2 (dt_hour t) @ pad2 (dt_minute t) @ pad2 (dt_second t))"
    by (simp add: strftime_def)
  show "length (pad4 (dt_year t) @ pad2 (dt_month t) @ pad2 (dt_day t)) = 8"
    by (simp add: pad2_def pad4_def)
  show "length (pad2 (dt_hour t) @ pad2 (dt_minute t) @ pad2 (dt_second t)) = 6"
    by (simp add: pad2_def)
  show "set ((pad4 (dt_year t) @ pad2 (dt_month t) @ pad2 (dt_day t)) @
             pad2 (dt_hour t) @ pad2 (dt_minute t) @ pad2 (dt_second t))
        \<subseteq> set ''0123456789''"
    using digit_is_digit by (simp add: pad2_def pad4_def del: set_simps) (simp add: digit_is_digit)
qed

text \<open>
  With the format \<^verbatim>\<open>excel\<close> the name has the format itself as its extension, and
  \<^verbatim>\<open>to_excel\<close> has no engine for it: the export raises before it returns a name.
\<close>

lemma export_filename_excel:
  "export_filename noon ''excel'' = ''search_results_20240309_120007.excel''"
  by (simp add: export_filename_def strftime_def noon_def pad2_def pad4_def digit_def)

lemma export_results_excel_no_path:
  "fst (export_results df ''excel'' s w) = Inl (ValueError (No_engine_for_filetype ''excel''))"
  by (simp add: export_results_def to_excel_def Let_def file_ext_export_filename)

text \<open>
  C6. Every export that returns a path was asked for the format \<^verbatim>\<open>csv\<close> or
  \<^verbatim>\<open>json\<close>, and the path is \<^verbatim>\<open>search_results_\<close>, the time stamp of eight digits, an
  underscore and six digits, a dot, and the format as the extension. An export asked
  for \<^verbatim>\<open>excel\<close> returns no path, so no returned path has an extension other than the
  claimed one for its format.
\<close>

theorem export_results_path_form:
  assumes "export_results df fmt s w = (Inr path, s', w')"
  shows "(fmt = ''csv'' \<or> fmt = ''json'') \<and>
         path = ''search_results_'' @ strftime (now w) @ ''.'' @ fmt \<and>
         file_ext path = fmt \<and>
         (\<exists>date time. strftime (now w) = date @ ''_'' @ time \<and> length date = 8 \<and>
            length time = 6 \<and> set (date @ time) \<subseteq> set ''0123456789'')"
proof -
  have supported: "fmt = ''csv'' \<or> fmt = ''json''"
  proof (rule ccontr)
    assume other: "\<not> (fmt = ''csv'' \<or> fmt = ''json'')"
    show False
    proof (cases "fmt = ''excel''")
      case True
      with assms export_results_excel_no_path [of df s w] show False by simp
    next
      case False
      with other have "fmt \<notin> {''csv'', ''excel'', ''json''}" by simp
      from export_results_unsupported [OF this, of df s w] assms show False by simp
    qed
  qed
  have name: "path = export_filename (now w) fmt"
    using assms
    by (simp add: export_results_def Let_def split: sum.splits)
  from supported have "CHR ''.'' \<notin> set fmt" by auto
  then have "file_ext path = fmt"
    unfolding name by (rule file_ext_export_filename)
  with supported name strftime_shape [of "now w"] show ?thesis
    by (simp add: export_filename_def)
qed

theorem export_results_path_form_witness:
  "fst (export_results [dune_book] ''csv'' (ready DEFAULT_CONFIG) (showing [])) =
     Inr ''search_results_20240309_120007.csv'' \<and>
   file_ext ''search_results_20240309_120007.csv'' = ''csv''"
proof -
  have name: "export_filename noon ''csv'' = ''search_results_20240309_120007.csv''"
    by (simp add: export_filename_def strftime_def noon_def pad2_def pad4_def digit_def)
  have run: "export_results [dune_book] ''csv'' (ready DEFAULT_CONFIG) (showing []) =
      (Inr ''search_results_20240309_120007.csv'', ready DEFAULT_CONFIG,
       (showing [])\<lparr>files := [''search_results_20240309_120007.csv'' \<mapsto> CsvDoc [dune_book]]\<rparr>)"
    using export_results_csv [of "showing []" "[dune_book]" "ready DEFAULT_CONFIG"] name
    by (simp add: write_error_showing files_showing) (simp add: showing_def)
  from export_results_path_form [OF run] run show ?thesis by simp
qed

text \<open>
  C7, at the format \<^verbatim>\<open>excel\<close>. The claim has every supported format write its file and
  return the path. \<^verbatim>\<open>excel\<close> is one of the three formats of \<^verbatim>\<open>export_results\<close>, but
  \<^verbatim>\<open>to_excel\<close> is handed a name ending in \<^verbatim>\<open>.excel\<close>, for which it has no engine:
  the export raises \<^verbatim>\<open>ValueError\<close>, logs it, writes no file and returns no path.
\<close>

theorem export_results_excel_raises:
  "export_results df ''excel'' s w =
     (Inl (ValueError (No_engine_for_filetype ''excel'')),
      s\<lparr>logged := logged s @ [Export_error (ValueError (No_engine_for_filetype ''excel''))]\<rparr>,
      w)"
  by (simp add: export_results_def to_excel_def Let_def file_ext_export_filename)

section \<open>The cap on the rows\<close>











section \<open>A search in the example world\<close>













section \<open>The number of records of a search\<close>




section \<open>Closing the browser\<close>













end
